theory Spec2Isabelle
  imports Complex_Main "HOL-Library.Multiset"
begin

section \<open>Data model\<close>

subsection \<open>Floats\<close>

text \<open>
  A Python \<^verbatim>\<open>float\<close> is a finite double, the infinity of either sign, or not-a-number.
  A finite double is held as the rational number it denotes (the two zeros are one
  value). An operation on finite operands returns its exact result rounded to a double;
  the rounding is the parameter \<open>fl\<close> of every operation below, so that what is proved
  holds for whatever the rounding does to the digits. An operation with an infinite or
  not-a-number operand follows IEEE 754: \<open>0 * inf\<close> and \<open>inf - inf\<close> are not-a-number,
  and every comparison with not-a-number is false. The overflow of a finite result to an
  infinity is not modelled.
\<close>

datatype pyfloat = Finite rat | PInf | NInf | NaN

fun is_negative :: "pyfloat \<Rightarrow> bool" where
  "is_negative (Finite a) = (a < 0)"
| "is_negative NInf = True"
| "is_negative PInf = False"
| "is_negative NaN = False"

text \<open>\<^verbatim>\<open>x * y\<close>, \<^verbatim>\<open>x + y\<close> and \<^verbatim>\<open>x / y\<close> on floats.\<close>

definition fmul :: "(rat \<Rightarrow> rat) \<Rightarrow> pyfloat \<Rightarrow> pyfloat \<Rightarrow> pyfloat" where
  "fmul fl x y =
     (case (x, y) of
        (Finite a, Finite b) \<Rightarrow> Finite (fl (a * b))
      | _ \<Rightarrow> if x = NaN \<or> y = NaN \<or> x = Finite 0 \<or> y = Finite 0 then NaN
             else if is_negative x = is_negative y then PInf else NInf)"

definition fadd :: "(rat \<Rightarrow> rat) \<Rightarrow> pyfloat \<Rightarrow> pyfloat \<Rightarrow> pyfloat" where
  "fadd fl x y =
     (case (x, y) of
        (Finite a, Finite b) \<Rightarrow> Finite (fl (a + b))
      | _ \<Rightarrow> if x = NaN \<or> y = NaN \<or> (x = PInf \<and> y = NInf) \<or> (x = NInf \<and> y = PInf) then NaN
             else if x = PInf \<or> y = PInf then PInf else NInf)"

text \<open>
  The division is used once, under the guard \<^verbatim>\<open>total_licenses > 0\<close>, with the float of
  that positive integer as divisor; the \<^verbatim>\<open>ZeroDivisionError\<close> of a zero divisor does not
  occur there.
\<close>

definition fdiv :: "(rat \<Rightarrow> rat) \<Rightarrow> pyfloat \<Rightarrow> pyfloat \<Rightarrow> pyfloat" where
  "fdiv fl x y =
     (case (x, y) of
        (Finite a, Finite b) \<Rightarrow> Finite (fl (a / b))
      | (Finite a, _) \<Rightarrow> if y = NaN then NaN else Finite 0
      | (_, Finite b) \<Rightarrow> if x = NaN then NaN
                          else if is_negative x = is_negative y then PInf else NInf
      | _ \<Rightarrow> NaN)"

text \<open>\<^verbatim>\<open>x <= y\<close> and \<^verbatim>\<open>x < y\<close> on floats.\<close>

fun fle :: "pyfloat \<Rightarrow> pyfloat \<Rightarrow> bool" where
  "fle (Finite a) (Finite b) = (a \<le> b)"
| "fle NaN y = False"
| "fle x NaN = False"
| "fle NInf y = True"
| "fle x PInf = True"
| "fle x y = False"

fun flt :: "pyfloat \<Rightarrow> pyfloat \<Rightarrow> bool" where
  "flt (Finite a) (Finite b) = (a < b)"
| "flt NaN y = False"
| "flt x NaN = False"
| "flt NInf NInf = False"
| "flt NInf y = True"
| "flt PInf y = False"
| "flt x PInf = True"
| "flt x y = False"

text \<open>The conversion of an \<^verbatim>\<open>int\<close> operand in a mixed operation.\<close>

definition float_of_int :: "(rat \<Rightarrow> rat) \<Rightarrow> int \<Rightarrow> pyfloat" where
  "float_of_int fl i = Finite (fl (of_int i))"

text \<open>
  \<^verbatim>\<open>sum(...)\<close> over floats: the additions from the integer 0, left to right. (CPython
  from 3.12 on carries a correction term through the same loop while all values are
  finite; that changes the digits of a finite result, which \<open>fl\<close> leaves open.)
\<close>

definition fsum :: "(rat \<Rightarrow> rat) \<Rightarrow> pyfloat list \<Rightarrow> pyfloat" where
  "fsum fl xs = foldl (fadd fl) (Finite 0) xs"

subsection \<open>Tables\<close>

text \<open>
  The three tables of \<^verbatim>\<open>src/app.py\<close>. Python integers are \<open>int\<close>, strings are
  \<open>string\<close>, a \<^verbatim>\<open>date\<close> is its day number (an \<open>int\<close>, so that
  \<^verbatim>\<open>d + timedelta(days=30)\<close> is \<open>d + 30\<close>). The column \<^verbatim>\<open>cost_per_license\<close> is a
  \<^verbatim>\<open>Float\<close> that the handlers fill with the request's value without any check, so it
  holds any float, the infinities and not-a-number included; likewise a seat count is
  any integer.
  The audit timestamps (\<^verbatim>\<open>created_at\<close>, \<^verbatim>\<open>updated_at\<close>, \<^verbatim>\<open>last_login\<close>,
  \<^verbatim>\<open>assigned_date\<close>, \<^verbatim>\<open>last_used\<close>) are read by none of the modelled operations and
  are left out.
\<close>

record User =
  uid :: int
  username :: string
  email :: string
  password_hash :: string
  role :: string

record Software =
  sw_id :: int
  name :: string
  vendor :: string
  description :: string
  license_type :: string
  total_licenses :: int
  cost_per_license :: pyfloat
  renewal_date :: int

record License =
  lic_id :: int
  software_id :: int
  assigned_to :: "int option"
  status :: string

record database =
  users :: "User list"
  software :: "Software list"
  licenses :: "License list"

subsection \<open>Derived properties of Software\<close>

text \<open>\<^verbatim>\<open>License.query.filter_by(software_id=self.id, status='active').count()\<close>\<close>

definition used_licenses :: "database \<Rightarrow> Software \<Rightarrow> int" where
  "used_licenses db s =
     int (length (filter (\<lambda>l. software_id l = sw_id s \<and> status l = ''active'') (licenses db)))"

text \<open>
  \<^verbatim>\<open>usage_percentage\<close> is the quotient of two integers times 100, always finite. It is
  read as a sort key and compared with the thresholds 30, 70 and 80 only, and is held
  as the exact value of the expression.
\<close>

definition usage_percentage :: "database \<Rightarrow> Software \<Rightarrow> rat" where
  "usage_percentage db s =
     (if total_licenses s = 0 then 0
      else (of_int (used_licenses db s) / of_int (total_licenses s)) * 100)"

definition total_cost :: "(rat \<Rightarrow> rat) \<Rightarrow> Software \<Rightarrow> pyfloat" where
  "total_cost fl s = fmul fl (float_of_int fl (total_licenses s)) (cost_per_license s)"

definition days_until_renewal :: "int \<Rightarrow> Software \<Rightarrow> int" where
  "days_until_renewal today s = renewal_date s - today"

section \<open>Aggregation: dashboard statistics\<close>

record categories =
  high :: nat
  medium :: nat
  low :: nat

record stats =
  stats_total_software :: nat
  stats_total_licenses :: int
  stats_active_licenses :: int
  stats_total_cost :: pyfloat
  stats_utilization :: rat
  stats_expiring_soon :: nat
  stats_expired :: nat
  stats_avg_cost_per_license :: pyfloat
  stats_potential_savings :: pyfloat
  stats_license_types :: "(string \<times> nat) list"
  stats_vendor_distribution :: "(string \<times> nat) list"
  stats_usage_categories :: categories
  stats_cost_categories :: categories

text \<open>\<^verbatim>\<open>sum(1 for s in xs if p(s))\<close>\<close>

definition count_if :: "('a \<Rightarrow> bool) \<Rightarrow> 'a list \<Rightarrow> nat" where
  "count_if p xs = length (filter p xs)"

text \<open>
  \<^verbatim>\<open>d[k] = d.get(k, 0) + 1\<close> on a dictionary kept in insertion order: an existing key
  is updated in place, a new key is appended.
\<close>

fun dict_incr :: "string \<Rightarrow> (string \<times> nat) list \<Rightarrow> (string \<times> nat) list" where
  "dict_incr k [] = [(k, 1)]"
| "dict_incr k ((k', v) # d) = (if k = k' then (k', v + 1) # d else (k', v) # dict_incr k d)"

definition frequencies :: "string list \<Rightarrow> (string \<times> nat) list" where
  "frequencies ks = foldl (\<lambda>d k. dict_incr k d) [] ks"

text \<open>
  \<^verbatim>\<open>get_dashboard_stats\<close>. The clock is read once and passed in as \<open>today\<close>; \<open>fl\<close> is
  the rounding of the float operations. The utilization is the true division of two
  integers (rounded once) times 100 (rounded again), a finite value. The sums of seats
  and of licences are integer sums; the sums of costs are float sums. No branch of the
  body raises in this model (every division is guarded), so the \<^verbatim>\<open>except\<close> branch with
  the zeroed record is not reached.
\<close>

definition get_dashboard_stats :: "(rat \<Rightarrow> rat) \<Rightarrow> database \<Rightarrow> int \<Rightarrow> stats" where
  "get_dashboard_stats fl db today =
     (let software_list = software db;
          n_total_software = length software_list;
          n_total_licenses = sum_list (map total_licenses software_list);
          active_licenses = sum_list (map (used_licenses db) software_list);
          cost = fsum fl (map (\<lambda>s. fmul fl (float_of_int fl (total_licenses s)) (cost_per_license s))
                              software_list);
          utilization =
            (if n_total_licenses > 0
             then fl (fl (of_int active_licenses / of_int n_total_licenses) * 100) else 0);
          thirty_days = today + 30;
          expiring_soon =
            count_if (\<lambda>s. renewal_date s \<le> thirty_days \<and> renewal_date s > today) software_list;
          expired = count_if (\<lambda>s. renewal_date s \<le> today) software_list;
          avg_cost_per_license =
            (if n_total_licenses > 0 then fdiv fl cost (float_of_int fl n_total_licenses)
             else Finite 0);
          potential_savings =
            fsum fl (map (\<lambda>s. fmul fl (float_of_int fl (total_licenses s - used_licenses db s))
                                      (cost_per_license s))
                         (filter (\<lambda>s. usage_percentage db s < 30) software_list));
          license_types = frequencies (map license_type software_list);
          vendor_distribution = frequencies (map vendor software_list);
          high_usage = count_if (\<lambda>s. usage_percentage db s \<ge> 80) software_list;
          medium_usage =
            count_if (\<lambda>s. 30 \<le> usage_percentage db s \<and> usage_percentage db s < 80) software_list;
          low_usage = count_if (\<lambda>s. usage_percentage db s < 30) software_list;
          high_cost =
            count_if (\<lambda>s. fle (Finite 100000)
                              (fmul fl (cost_per_license s) (float_of_int fl (total_licenses s))))
                     software_list;
          medium_cost =
            count_if (\<lambda>s. fle (Finite 10000)
                              (fmul fl (cost_per_license s) (float_of_int fl (total_licenses s)))
                          \<and> flt (fmul fl (cost_per_license s) (float_of_int fl (total_licenses s)))
                                (Finite 100000))
                     software_list;
          low_cost =
            count_if (\<lambda>s. flt (fmul fl (cost_per_license s) (float_of_int fl (total_licenses s)))
                              (Finite 10000))
                     software_list
      in \<lparr> stats_total_software = n_total_software,
           stats_total_licenses = n_total_licenses,
           stats_active_licenses = active_licenses,
           stats_total_cost = cost,
           stats_utilization = utilization,
           stats_expiring_soon = expiring_soon,
           stats_expired = expired,
           stats_avg_cost_per_license = avg_cost_per_license,
           stats_potential_savings = potential_savings,
           stats_license_types = license_types,
           stats_vendor_distribution = vendor_distribution,
           stats_usage_categories = \<lparr> high = high_usage, medium = medium_usage, low = low_usage \<rparr>,
           stats_cost_categories = \<lparr> high = high_cost, medium = medium_cost, low = low_cost \<rparr> \<rparr>)"

section \<open>Aggregation: rankings\<close>

text \<open>
  \<^verbatim>\<open>sorted(xs, key=k, reverse=True)\<close>: Python's sort is stable and stays stable under
  \<^verbatim>\<open>reverse=True\<close> (items with equal keys keep their original order), which for a
  numeric key is the stable ascending sort by the negated key.
\<close>

definition sorted_reverse :: "('a \<Rightarrow> 'k::linordered_idom) \<Rightarrow> 'a list \<Rightarrow> 'a list" where
  "sorted_reverse k xs = sort_key (\<lambda>x. - k x) xs"




section \<open>Inventory view\<close>

text \<open>
  \<^verbatim>\<open>xs[start:end]\<close> with Python's rules for bounds: a negative bound counts from the
  end, and every bound is clamped into \<open>0 .. len(xs)\<close>.
\<close>

definition slice_bound :: "nat \<Rightarrow> int \<Rightarrow> nat" where
  "slice_bound n i = (if i < 0 then nat (max (i + int n) 0) else min (nat i) n)"

definition py_slice :: "'a list \<Rightarrow> int \<Rightarrow> int \<Rightarrow> 'a list" where
  "py_slice xs start stop =
     (let lo = slice_bound (length xs) start; hi = slice_bound (length xs) stop
      in take (hi - lo) (drop lo xs))"

record page_info =
  filter_type :: string
  page :: int
  per_page :: int
  total :: int
  has_next :: bool
  has_prev :: bool
  pages :: int

text \<open>
  The two shapes in which \<^verbatim>\<open>software_inventory\<close> renders its template: with one
  \<^verbatim>\<open>software_list\<close> (and the message flashed before, if any), or with the three
  category lists.
\<close>

datatype inventory_response =
  is_Render_list: Render_list (flashed: "string option") (software_list: "Software list") (list_info: page_info)
| is_Render_categories: Render_categories (active_software: "Software list") (expiring_software: "Software list")
    (expired_software: "Software list") (categories_info: page_info)

text \<open>The three single-category selections, each with its own sort (lines 848 to 860).\<close>

definition active_filtered :: "database \<Rightarrow> Software list" where
  "active_filtered db =
     sorted_reverse (usage_percentage db) (filter (\<lambda>s. usage_percentage db s > 70) (software db))"

definition expiring_filtered :: "database \<Rightarrow> int \<Rightarrow> Software list" where
  "expiring_filtered db today =
     sort_key renewal_date
       (filter (\<lambda>s. renewal_date s \<le> today + 30 \<and> renewal_date s > today) (software db))"

definition expired_filtered :: "database \<Rightarrow> int \<Rightarrow> Software list" where
  "expired_filtered db today =
     sorted_reverse renewal_date (filter (\<lambda>s. renewal_date s \<le> today) (software db))"

text \<open>
  \<^verbatim>\<open>software_inventory\<close>, the body behind \<^verbatim>\<open>login_required\<close>. \<open>filter_arg\<close> and
  \<open>page_arg\<close> are the query parameters \<^verbatim>\<open>filter\<close> and \<^verbatim>\<open>page\<close>; \<open>page_arg\<close> is
  \<open>None\<close> when the parameter is absent or is not an integer, and then the default 1 is
  taken, as \<^verbatim>\<open>request.args.get('page', 1, type=int)\<close> does.
\<close>

definition software_inventory ::
  "database \<Rightarrow> string option \<Rightarrow> int option \<Rightarrow> int \<Rightarrow> inventory_response" where
  "software_inventory db filter_arg page_arg today =
     (let ft = (case filter_arg of None \<Rightarrow> ''all'' | Some f \<Rightarrow> f);
          pg = (case page_arg of None \<Rightarrow> 1 | Some p \<Rightarrow> p);
          pp = 12;
          all_software = software db
      in if all_software = [] then
           Render_list (Some ''No software found in the inventory.'') []
             \<lparr> filter_type = ft, page = 1, per_page = pp, total = 0,
               has_next = False, has_prev = False, pages = 1 \<rparr>
         else if ft = ''active'' \<or> ft = ''expiring'' \<or> ft = ''expired'' then
           (let filtered_software =
                  (if ft = ''active'' then active_filtered db
                   else if ft = ''expiring'' then expiring_filtered db today
                   else expired_filtered db today);
                n = int (length filtered_software);
                start = (pg - 1) * pp;
                stop = start + pp;
                paginated_software = (if start < n then py_slice filtered_software start stop else [])
            in Render_list None paginated_software
                 \<lparr> filter_type = ft, page = pg, per_page = pp, total = n,
                   has_next = (stop < n), has_prev = (pg > 1), pages = (n + pp - 1) div pp \<rparr>)
         else
           Render_categories
             (take 8 (active_filtered db))
             (take 8 (expiring_filtered db today))
             (take 8 (expired_filtered db today))
             \<lparr> filter_type = ft, page = 1, per_page = pp, total = int (length all_software),
               has_next = False, has_prev = False, pages = 1 \<rparr>)"

text \<open>The list the source calls \<^verbatim>\<open>filtered_software\<close> in the three single-category modes.\<close>

definition filtered_software :: "database \<Rightarrow> string \<Rightarrow> int \<Rightarrow> Software list" where
  "filtered_software db ft today =
     (if ft = ''active'' then active_filtered db
      else if ft = ''expiring'' then expiring_filtered db today
      else expired_filtered db today)"

section \<open>JSON API\<close>

subsection \<open>Strings\<close>

text \<open>
  \<^verbatim>\<open>str.strip()\<close> and \<^verbatim>\<open>str.lower()\<close> on ASCII text: the white space removed from both
  ends is tab, line feed, vertical tab, form feed, carriage return, the four separators
  \<open>0x1C .. 0x1F\<close> and the space; \<open>A .. Z\<close> are mapped to \<open>a .. z\<close>.
\<close>

definition is_space :: "char \<Rightarrow> bool" where
  "is_space c \<longleftrightarrow> (let n = (of_char c :: nat) in (9 \<le> n \<and> n \<le> 13) \<or> (28 \<le> n \<and> n \<le> 32))"

definition strip :: "string \<Rightarrow> string" where
  "strip s = rev (dropWhile is_space (rev (dropWhile is_space s)))"

definition lower_char :: "char \<Rightarrow> char" where
  "lower_char c =
     (case map_of (zip ''ABCDEFGHIJKLMNOPQRSTUVWXYZ'' ''abcdefghijklmnopqrstuvwxyz'') c of
        Some l \<Rightarrow> l
      | None \<Rightarrow> c)"

definition lower :: "string \<Rightarrow> string" where
  "lower s = map lower_char s"

text \<open>The decimal form of a count, as an f-string prints it.\<close>

definition digit_char :: "nat \<Rightarrow> char" where
  "digit_char d = ''0123456789'' ! d"

function str_nat :: "nat \<Rightarrow> string" where
  "str_nat n = (if n < 10 then [digit_char n] else str_nat (n div 10) @ [digit_char (n mod 10)])"
  by pat_completeness auto
termination
  by (relation "measure (\<lambda>n. n)") auto

declare str_nat.simps [simp del]

subsection \<open>Requests and responses\<close>

text \<open>
  The JSON body of a user request: a key that is absent is \<open>None\<close>. The responses are
  \<^verbatim>\<open>jsonify(...)\<close> with its status, the redirect to the login page that
  \<^verbatim>\<open>login_required\<close> answers when no user is logged in, and the 404 of
  \<^verbatim>\<open>get_or_404\<close>.
\<close>

record user_data =
  d_username :: "string option"
  d_email :: "string option"
  d_password :: "string option"
  d_role :: "string option"

record user_json =
  json_id :: int
  json_username :: string
  json_email :: string
  json_role :: string

datatype json_body =
  Error string
| Message string
| Message_user string user_json

datatype response =
  Json nat json_body
| Redirect_login
| Not_found

fun status_code :: "response \<Rightarrow> nat" where
  "status_code (Json c b) = c"
| "status_code Redirect_login = 302"
| "status_code Not_found = 404"

definition user_object :: "User \<Rightarrow> user_json" where
  "user_object u =
     \<lparr> json_id = uid u, json_username = username u, json_email = email u, json_role = role u \<rparr>"

text \<open>
  \<^verbatim>\<open>load_user\<close>: the logged-in user is read from the table by the id kept in the
  session; \<open>None\<close> is a request without a logged-in user.
\<close>

definition load_user :: "database \<Rightarrow> int option \<Rightarrow> User option" where
  "load_user db sid = (case sid of None \<Rightarrow> None | Some i \<Rightarrow> find (\<lambda>u. uid u = i) (users db))"

text \<open>\<^verbatim>\<open>User.query.filter_by(role='admin').count()\<close>\<close>

definition admin_count :: "database \<Rightarrow> nat" where
  "admin_count db = length (filter (\<lambda>u. role u = ''admin'') (users db))"

text \<open>
  \<^verbatim>\<open>User.__init__\<close>, with the id the table assigns on insert and the column default of
  \<^verbatim>\<open>role\<close>. \<open>gen_hash\<close> stands for \<^verbatim>\<open>generate_password_hash\<close>.
\<close>

definition User_init :: "(string \<Rightarrow> string) \<Rightarrow> int \<Rightarrow> string \<Rightarrow> string \<Rightarrow> string \<Rightarrow> User" where
  "User_init gen_hash i un em pw =
     \<lparr> uid = i, username = strip un, email = lower (strip em),
       password_hash = gen_hash pw, role = ''user'' \<rparr>"

definition next_id :: "User list \<Rightarrow> int" where
  "next_id us = foldr max (map uid us) 0 + 1"

text \<open>
  The columns \<^verbatim>\<open>username\<close> and \<^verbatim>\<open>email\<close> are declared \<^verbatim>\<open>unique=True\<close>: a commit that
  would leave row \<open>u\<close> beside another row with the same username or email raises
  \<^verbatim>\<open>IntegrityError\<close>.
\<close>

definition violates_unique :: "User list \<Rightarrow> User \<Rightarrow> bool" where
  "violates_unique others u \<longleftrightarrow>
     (\<exists>x \<in> set others. username x = username u \<or> email x = email u)"

subsection \<open>POST /api/users\<close>

text \<open>
  \<^verbatim>\<open>add_user\<close>. The request body is a JSON object. The two look-ups compare the strings
  of the request as they are (the table is SQLite, whose \<^verbatim>\<open>=\<close> on text is exact), while
  \<^verbatim>\<open>User.__init__\<close> stores the stripped name and the stripped, lower-cased address; a
  failed commit is caught by the handler's \<^verbatim>\<open>except\<close>, rolled back and answered with 500.
\<close>

definition add_user ::
  "(string \<Rightarrow> string) \<Rightarrow> database \<Rightarrow> int option \<Rightarrow> user_data \<Rightarrow> response \<times> database" where
  "add_user gen_hash db sid data =
     (case load_user db sid of
        None \<Rightarrow> (Redirect_login, db)
      | Some current_user \<Rightarrow>
          if role current_user \<noteq> ''admin'' then (Json 403 (Error ''Unauthorized''), db)
          else
            (case (d_username data, d_email data, d_password data, d_role data) of
               (Some un, Some em, Some pw, Some rl) \<Rightarrow>
                 if find (\<lambda>u. username u = un) (users db) \<noteq> None
                 then (Json 400 (Error ''Username already exists''), db)
                 else if find (\<lambda>u. email u = em) (users db) \<noteq> None
                 then (Json 400 (Error ''Email already exists''), db)
                 else
                   (let user = (User_init gen_hash (next_id (users db)) un em pw) \<lparr> role := rl \<rparr>
                    in if violates_unique (users db) user
                       then (Json 500 (Error ''Internal server error''), db)
                       else (Json 201 (Message_user ''User created successfully'' (user_object user)),
                             db \<lparr> users := users db @ [user] \<rparr>))
             | _ \<Rightarrow> (Json 400 (Error ''Missing required fields''), db)))"

subsection \<open>PUT /api/users/id\<close>

text \<open>
  The four steps of \<^verbatim>\<open>update_user\<close> on the loaded row; \<open>Inl\<close> is an early return. Every
  query of the handler reads a column that the steps before it have not changed, so all
  of them are answered from the table as it was.
\<close>

definition upd_username :: "database \<Rightarrow> int \<Rightarrow> user_data \<Rightarrow> User \<Rightarrow> response + User" where
  "upd_username db user_id data user =
     (case d_username data of
        None \<Rightarrow> Inr user
      | Some un \<Rightarrow>
          (case find (\<lambda>u. username u = un) (users db) of
             Some existing \<Rightarrow>
               if uid existing \<noteq> user_id then Inl (Json 400 (Error ''Username already exists''))
               else Inr (user \<lparr> username := un \<rparr>)
           | None \<Rightarrow> Inr (user \<lparr> username := un \<rparr>)))"

definition upd_email :: "database \<Rightarrow> int \<Rightarrow> user_data \<Rightarrow> User \<Rightarrow> response + User" where
  "upd_email db user_id data user =
     (case d_email data of
        None \<Rightarrow> Inr user
      | Some em \<Rightarrow>
          (case find (\<lambda>u. email u = em) (users db) of
             Some existing \<Rightarrow>
               if uid existing \<noteq> user_id then Inl (Json 400 (Error ''Email already exists''))
               else Inr (user \<lparr> email := em \<rparr>)
           | None \<Rightarrow> Inr (user \<lparr> email := em \<rparr>)))"

definition upd_password :: "(string \<Rightarrow> string) \<Rightarrow> user_data \<Rightarrow> User \<Rightarrow> User" where
  "upd_password gen_hash data user =
     (case d_password data of None \<Rightarrow> user | Some pw \<Rightarrow> user \<lparr> password_hash := gen_hash pw \<rparr>)"

definition upd_role :: "database \<Rightarrow> User \<Rightarrow> int \<Rightarrow> user_data \<Rightarrow> User \<Rightarrow> response + User" where
  "upd_role db current_user user_id data user =
     (case d_role data of
        None \<Rightarrow> Inr user
      | Some rl \<Rightarrow>
          if user_id = uid current_user then Inl (Json 400 (Error ''Cannot change own role''))
          else if role user = ''admin'' \<and> rl \<noteq> ''admin'' \<and> admin_count db \<le> 1
          then Inl (Json 400 (Error ''Cannot remove last admin''))
          else Inr (user \<lparr> role := rl \<rparr>))"

definition update_user ::
  "(string \<Rightarrow> string) \<Rightarrow> database \<Rightarrow> int option \<Rightarrow> int \<Rightarrow> user_data \<Rightarrow> response \<times> database" where
  "update_user gen_hash db sid user_id data =
     (case load_user db sid of
        None \<Rightarrow> (Redirect_login, db)
      | Some current_user \<Rightarrow>
          if role current_user \<noteq> ''admin'' then (Json 403 (Error ''Unauthorized''), db)
          else
            (case find (\<lambda>u. uid u = user_id) (users db) of
               None \<Rightarrow> (Not_found, db)
             | Some user \<Rightarrow>
                 (case upd_username db user_id data user of
                    Inl r \<Rightarrow> (r, db)
                  | Inr u1 \<Rightarrow>
                      (case upd_email db user_id data u1 of
                         Inl r \<Rightarrow> (r, db)
                       | Inr u2 \<Rightarrow>
                           (case upd_role db current_user user_id data (upd_password gen_hash data u2) of
                              Inl r \<Rightarrow> (r, db)
                            | Inr u4 \<Rightarrow>
                                if violates_unique (filter (\<lambda>x. uid x \<noteq> user_id) (users db)) u4
                                then (Json 500 (Error ''Internal server error''), db)
                                else (Json 200 (Message_user ''User updated successfully'' (user_object u4)),
                                      db \<lparr> users := map (\<lambda>x. if uid x = user_id then u4 else x)
                                                       (users db) \<rparr>))))))"

subsection \<open>DELETE /api/users/id\<close>

definition delete_user :: "database \<Rightarrow> int option \<Rightarrow> int \<Rightarrow> response \<times> database" where
  "delete_user db sid user_id =
     (case load_user db sid of
        None \<Rightarrow> (Redirect_login, db)
      | Some current_user \<Rightarrow>
          if role current_user \<noteq> ''admin'' then (Json 403 (Error ''Unauthorized''), db)
          else if user_id = uid current_user
          then (Json 400 (Error ''Cannot delete own account''), db)
          else
            (case find (\<lambda>u. uid u = user_id) (users db) of
               None \<Rightarrow> (Not_found, db)
             | Some user \<Rightarrow>
                 if role user = ''admin'' \<and> admin_count db \<le> 1
                 then (Json 400 (Error ''Cannot delete last admin''), db)
                 else (Json 200 (Message ''User deleted successfully''),
                       db \<lparr> users := filter (\<lambda>x. uid x \<noteq> user_id) (users db) \<rparr>)))"

subsection \<open>DELETE /api/software/id\<close>

text \<open>
  \<^verbatim>\<open>License.query.filter_by(software_id=software_id, status='active').count()\<close>
\<close>

definition active_license_count :: "database \<Rightarrow> int \<Rightarrow> nat" where
  "active_license_count db software_id' =
     length (filter (\<lambda>l. software_id l = software_id' \<and> status l = ''active'') (licenses db))"

text \<open>
  \<^verbatim>\<open>delete_software\<close>. The relationship \<^verbatim>\<open>Software.licenses\<close> has no delete cascade, so
  deleting the parent row sets \<^verbatim>\<open>software_id\<close> of its remaining licences to NULL; the
  column is \<^verbatim>\<open>nullable=False\<close>, so with any licence left the commit raises and the handler
  rolls back and answers 500.
\<close>

definition delete_software :: "database \<Rightarrow> int option \<Rightarrow> int \<Rightarrow> response \<times> database" where
  "delete_software db sid software_id' =
     (case load_user db sid of
        None \<Rightarrow> (Redirect_login, db)
      | Some current_user \<Rightarrow>
          if role current_user \<noteq> ''admin'' then (Json 403 (Error ''Unauthorized''), db)
          else
            (case find (\<lambda>s. sw_id s = software_id') (software db) of
               None \<Rightarrow> (Not_found, db)
             | Some sw \<Rightarrow>
                 (let active_licenses = active_license_count db software_id'
                  in if active_licenses > 0
                     then (Json 400 (Error (''Cannot delete software with '' @ str_nat active_licenses
                                              @ '' active licenses'')), db)
                     else if \<exists>l \<in> set (licenses db). software_id l = software_id'
                     then (Json 500 (Error ''Internal server error''), db)
                     else (Json 200 (Message ''Software deleted successfully''),
                           db \<lparr> software := filter (\<lambda>s. sw_id s \<noteq> software_id') (software db) \<rparr>))))"

section \<open>Example data\<close>

definition mk_software :: "int \<Rightarrow> string \<Rightarrow> int \<Rightarrow> rat \<Rightarrow> int \<Rightarrow> Software" where
  "mk_software i n t c r =
     \<lparr> sw_id = i, name = n, vendor = ''Acme'', description = '''', license_type = ''Per User'',
       total_licenses = t, cost_per_license = Finite c, renewal_date = r \<rparr>"

definition mk_license :: "int \<Rightarrow> int \<Rightarrow> string \<Rightarrow> License" where
  "mk_license i s st = \<lparr> lic_id = i, software_id = s, assigned_to = Some 1, status = st \<rparr>"

text \<open>One product with four seats, one of them in use.\<close>

definition db_quarter :: database where
  "db_quarter =
     \<lparr> users = [],
       software = [mk_software 1 ''Editor'' 4 10 100],
       licenses = [mk_license 1 1 ''active''] \<rparr>"

text \<open>
  One product whose seat count was set to zero (\<^verbatim>\<open>PUT /api/software/1\<close> with
  \<^verbatim>\<open>total_licenses = 0\<close>) while one of its licences is still active.
\<close>

definition db_zero_seats :: database where
  "db_zero_seats =
     \<lparr> users = [],
       software = [mk_software 1 ''Editor'' 0 10 100],
       licenses = [mk_license 1 1 ''active''] \<rparr>"


text \<open>Two products without licences; seen from day 100 one renews in 10 days, one lapsed 10 days ago.\<close>

definition db_dates :: database where
  "db_dates =
     \<lparr> users = [],
       software = [mk_software 1 ''Editor'' 2 10 110, mk_software 2 ''Mail'' 100 5 90],
       licenses = [] \<rparr>"

text \<open>The empty inventory.\<close>

definition db_empty :: database where
  "db_empty = \<lparr> users = [], software = [], licenses = [] \<rparr>"

text \<open>
  One product whose seat count was set to \<open>-2\<close> (the handlers store
  \<^verbatim>\<open>data['total_licenses']\<close> unchecked), with one active licence.
\<close>

definition db_negative_seats :: database where
  "db_negative_seats =
     \<lparr> users = [],
       software = [mk_software 1 ''Editor'' (- 2) 10 100],
       licenses = [mk_license 1 1 ''active''] \<rparr>"

text \<open>Three products, used to 100, 50 and 0 percent.\<close>

definition db_three :: database where
  "db_three =
     \<lparr> users = [],
       software = [mk_software 1 ''Editor'' 1 10 100, mk_software 2 ''Mail'' 2 5 100,
                   mk_software 3 ''Draw'' 4 20 100],
       licenses = [mk_license 1 1 ''active'', mk_license 2 2 ''active''] \<rparr>"

text \<open>
  One product without seats and without licences whose cost is infinite (a request
  with \<^verbatim>\<open>"cost_per_license": 1e999\<close>).
\<close>

definition db_infinite_cost :: database where
  "db_infinite_cost =
     \<lparr> users = [],
       software = [(mk_software 1 ''Editor'' 0 0 100) \<lparr> cost_per_license := PInf \<rparr>],
       licenses = [] \<rparr>"

text \<open>Users, and request bodies, for the JSON API.\<close>

definition mk_user :: "int \<Rightarrow> string \<Rightarrow> string \<Rightarrow> string \<Rightarrow> User" where
  "mk_user i un em rl = \<lparr> uid = i, username = un, email = em, password_hash = ''#'', role = rl \<rparr>"

text \<open>The administrator and one ordinary user; one product with one active licence.\<close>

definition db_office :: database where
  "db_office =
     \<lparr> users = [mk_user 1 ''admin'' ''admin@samurai.com'' ''admin'',
                mk_user 2 ''john.doe'' ''john.doe@company.com'' ''user''],
       software = [mk_software 1 ''Editor'' 4 10 100],
       licenses = [mk_license 1 1 ''active''] \<rparr>"

text \<open>The empty JSON object.\<close>

definition no_data :: user_data where
  "no_data = \<lparr> d_username = None, d_email = None, d_password = None, d_role = None \<rparr>"

text \<open>The administrator alone; the product has no licence.\<close>

definition db_idle :: database where
  "db_idle =
     \<lparr> users = [mk_user 1 ''admin'' ''admin@samurai.com'' ''admin''],
       software = [mk_software 1 ''Editor'' 4 10 100],
       licenses = [] \<rparr>"

text \<open>Two request bodies: a role change to \<^verbatim>\<open>user\<close>, and a new account whose address differs
  from the administrator's only in case.\<close>

definition demote :: user_data where
  "demote = no_data \<lparr> d_role := Some ''user'' \<rparr>"

definition new_bob :: user_data where
  "new_bob = \<lparr> d_username = Some ''bob'', d_email = Some ''Admin@Samurai.com'',
               d_password = Some ''secret'', d_role = Some ''user'' \<rparr>"

section \<open>Properties of the dashboard statistics\<close>

text \<open>
  The examples are evaluated with the rounding \<open>id\<close>: their values are small integers
  and quarters, which a double holds exactly.
\<close>

lemma used_licenses_nonneg: "0 \<le> used_licenses db s"
  by (simp add: used_licenses_def)

lemma count_if_partition3:
  fixes f :: "'a \<Rightarrow> rat"
  shows "count_if (\<lambda>s. f s \<ge> 80) xs + count_if (\<lambda>s. 30 \<le> f s \<and> f s < 80) xs
           + count_if (\<lambda>s. f s < 30) xs = length xs"
  by (induction xs) (auto simp: count_if_def)

lemma utilization_eq:
  "stats_utilization (get_dashboard_stats fl db today) =
     (if sum_list (map total_licenses (software db)) > 0
      then fl (fl (of_int (sum_list (map (used_licenses db) (software db)))
                   / of_int (sum_list (map total_licenses (software db)))) * 100)
      else 0)"
  by (simp add: get_dashboard_stats_def Let_def)

lemma sum_list_nonneg_int:
  "(\<And>x. x \<in> set xs \<Longrightarrow> (0::int) \<le> f x) \<Longrightarrow> 0 \<le> sum_list (map f xs)"
  by (induction xs) auto

text \<open>
  C1 as stated (utilization is 0 when the seats sum to 0 and exactly
  \<open>used / total * 100\<close> otherwise) fails when the seats sum to less than 0: the guard of
  the source is \<^verbatim>\<open>total_licenses > 0\<close>, so the answer is 0 where the claim's formula gives
  \<open>-50\<close>.
\<close>

theorem C1_utilization_counterexample:
  "stats_utilization (get_dashboard_stats id db_negative_seats 0) = 0
   \<and> sum_list (map total_licenses (software db_negative_seats)) = - 2
   \<and> sum_list (map (used_licenses db_negative_seats) (software db_negative_seats)) = 1
   \<and> (of_int (sum_list (map (used_licenses db_negative_seats) (software db_negative_seats)))
        / of_int (sum_list (map total_licenses (software db_negative_seats))) * 100 :: rat) = - 50"
  by (simp add: get_dashboard_stats_def Let_def db_negative_seats_def mk_software_def
      mk_license_def used_licenses_def)

text \<open>
  C1, amended. The utilization is 0 when the seats of the collection sum to 0 or less,
  and otherwise the float value of \<^verbatim>\<open>used / total * 100\<close>: the quotient of the two sums
  rounded to a double, times 100, rounded again. On seat counts that are not negative
  the test is the claim's test for 0, and where neither rounding changes its operand
  the value is \<open>used / total * 100\<close> exactly.
\<close>

theorem C1_utilization:
  "stats_utilization (get_dashboard_stats fl db today) =
     (if sum_list (map total_licenses (software db)) \<le> 0 then 0
      else fl (fl (of_int (sum_list (map (used_licenses db) (software db)))
                   / of_int (sum_list (map total_licenses (software db)))) * 100))
   \<and> ((\<forall>s \<in> set (software db). 0 \<le> total_licenses s)
        \<and> fl (of_int (sum_list (map (used_licenses db) (software db)))
               / of_int (sum_list (map total_licenses (software db))))
            = of_int (sum_list (map (used_licenses db) (software db)))
               / of_int (sum_list (map total_licenses (software db)))
        \<and> fl (of_int (sum_list (map (used_licenses db) (software db)))
               / of_int (sum_list (map total_licenses (software db))) * 100)
            = of_int (sum_list (map (used_licenses db) (software db)))
               / of_int (sum_list (map total_licenses (software db))) * 100
       \<longrightarrow> stats_utilization (get_dashboard_stats fl db today) =
             (if sum_list (map total_licenses (software db)) = 0 then 0
              else of_int (sum_list (map (used_licenses db) (software db)))
                     / of_int (sum_list (map total_licenses (software db))) * 100))"
proof (intro conjI impI)
  show "stats_utilization (get_dashboard_stats fl db today) =
     (if sum_list (map total_licenses (software db)) \<le> 0 then 0
      else fl (fl (of_int (sum_list (map (used_licenses db) (software db)))
                   / of_int (sum_list (map total_licenses (software db)))) * 100))"
    unfolding utilization_eq by auto
next
  assume h: "(\<forall>s \<in> set (software db). 0 \<le> total_licenses s)
        \<and> fl (of_int (sum_list (map (used_licenses db) (software db)))
               / of_int (sum_list (map total_licenses (software db))))
            = of_int (sum_list (map (used_licenses db) (software db)))
               / of_int (sum_list (map total_licenses (software db)))
        \<and> fl (of_int (sum_list (map (used_licenses db) (software db)))
               / of_int (sum_list (map total_licenses (software db))) * 100)
            = of_int (sum_list (map (used_licenses db) (software db)))
               / of_int (sum_list (map total_licenses (software db))) * 100"
  then have "0 \<le> sum_list (map total_licenses (software db))"
    by (intro sum_list_nonneg_int) simp
  with h show "stats_utilization (get_dashboard_stats fl db today) =
             (if sum_list (map total_licenses (software db)) = 0 then 0
              else of_int (sum_list (map (used_licenses db) (software db)))
                     / of_int (sum_list (map total_licenses (software db))) * 100)"
    unfolding utilization_eq by auto
qed

text \<open>On \<open>db_quarter\<close> one of four seats is in use: the utilization is 25.\<close>

theorem C1_utilization_witness:
  "list_all (\<lambda>s. 0 \<le> total_licenses s) (software db_quarter)
   \<and> sum_list (map total_licenses (software db_quarter)) = 4
   \<and> stats_utilization (get_dashboard_stats id db_quarter 0) = 25"
proof -
  have h: "\<forall>s \<in> set (software db_quarter). 0 \<le> total_licenses s"
    by (simp add: db_quarter_def mk_software_def)
  have l: "list_all (\<lambda>s. 0 \<le> total_licenses s) (software db_quarter)"
    using h by (simp only: list_all_iff)
  have t: "sum_list (map total_licenses (software db_quarter)) = 4"
    by (simp add: db_quarter_def mk_software_def)
  have u: "sum_list (map (used_licenses db_quarter) (software db_quarter)) = 1"
    by (simp add: db_quarter_def mk_software_def mk_license_def used_licenses_def)
  have v: "stats_utilization (get_dashboard_stats id db_quarter 0) = 25"
    using C1_utilization [of id db_quarter 0, THEN conjunct2] h
    unfolding t u by simp
  from l t v show ?thesis by (intro conjI)
qed

text \<open>
  C5. Each of the three usage buckets is the number of products of the collection whose
  usage percentage is at least 80, from 30 up to but not 80, and below 30; every product
  falls in exactly one of the three; and the three counts add up to \<open>total_software\<close>,
  the size of the collection.
\<close>

theorem C5_usage_categories_partition:
  "high (stats_usage_categories (get_dashboard_stats fl db today))
     = length (filter (\<lambda>s. 80 \<le> usage_percentage db s) (software db))
   \<and> medium (stats_usage_categories (get_dashboard_stats fl db today))
     = length (filter (\<lambda>s. 30 \<le> usage_percentage db s \<and> usage_percentage db s < 80) (software db))
   \<and> low (stats_usage_categories (get_dashboard_stats fl db today))
     = length (filter (\<lambda>s. usage_percentage db s < 30) (software db))
   \<and> (if 80 \<le> usage_percentage db s then 1 else 0)
       + (if 30 \<le> usage_percentage db s \<and> usage_percentage db s < 80 then 1 else 0)
       + (if usage_percentage db s < 30 then 1 else 0) = (1::nat)
   \<and> high (stats_usage_categories (get_dashboard_stats fl db today))
       + medium (stats_usage_categories (get_dashboard_stats fl db today))
       + low (stats_usage_categories (get_dashboard_stats fl db today))
     = stats_total_software (get_dashboard_stats fl db today)
   \<and> stats_total_software (get_dashboard_stats fl db today) = length (software db)"
proof (intro conjI)
  show "high (stats_usage_categories (get_dashboard_stats fl db today))
     = length (filter (\<lambda>s. 80 \<le> usage_percentage db s) (software db))"
    by (simp add: get_dashboard_stats_def Let_def count_if_def)
  show "medium (stats_usage_categories (get_dashboard_stats fl db today))
     = length (filter (\<lambda>s. 30 \<le> usage_percentage db s \<and> usage_percentage db s < 80) (software db))"
    by (simp add: get_dashboard_stats_def Let_def count_if_def)
  show "low (stats_usage_categories (get_dashboard_stats fl db today))
     = length (filter (\<lambda>s. usage_percentage db s < 30) (software db))"
    by (simp add: get_dashboard_stats_def Let_def count_if_def)
  show "(if 80 \<le> usage_percentage db s then 1 else 0)
       + (if 30 \<le> usage_percentage db s \<and> usage_percentage db s < 80 then 1 else 0)
       + (if usage_percentage db s < 30 then 1 else 0) = (1::nat)"
    by auto
  show "high (stats_usage_categories (get_dashboard_stats fl db today))
       + medium (stats_usage_categories (get_dashboard_stats fl db today))
       + low (stats_usage_categories (get_dashboard_stats fl db today))
     = stats_total_software (get_dashboard_stats fl db today)"
    by (simp add: get_dashboard_stats_def Let_def count_if_partition3)
  show "stats_total_software (get_dashboard_stats fl db today) = length (software db)"
    by (simp add: get_dashboard_stats_def Let_def)
qed

text \<open>On \<open>db_three\<close> each bucket holds one of the three products.\<close>

theorem C5_usage_categories_partition_witness:
  "high (stats_usage_categories (get_dashboard_stats id db_three 0)) = 1
   \<and> medium (stats_usage_categories (get_dashboard_stats id db_three 0)) = 1
   \<and> low (stats_usage_categories (get_dashboard_stats id db_three 0)) = 1
   \<and> stats_total_software (get_dashboard_stats id db_three 0) = 3"
proof -
  note T = C5_usage_categories_partition [of id db_three 0]
  have u1: "usage_percentage db_three (mk_software 1 ''Editor'' 1 10 100) = 100"
    by (simp add: usage_percentage_def used_licenses_def db_three_def mk_software_def
        mk_license_def)
  have u2: "usage_percentage db_three (mk_software 2 ''Mail'' 2 5 100) = 50"
    by (simp add: usage_percentage_def used_licenses_def db_three_def mk_software_def
        mk_license_def)
  have u3: "usage_percentage db_three (mk_software 3 ''Draw'' 4 20 100) = 0"
    by (simp add: usage_percentage_def used_licenses_def db_three_def mk_software_def
        mk_license_def)
  have sw: "software db_three = [mk_software 1 ''Editor'' 1 10 100, mk_software 2 ''Mail'' 2 5 100,
                   mk_software 3 ''Draw'' 4 20 100]"
    by (simp add: db_three_def)
  have a: "high (stats_usage_categories (get_dashboard_stats id db_three 0)) = 1"
    unfolding T [THEN conjunct1] sw by (simp add: u1 u2 u3)
  have b: "medium (stats_usage_categories (get_dashboard_stats id db_three 0)) = 1"
    unfolding T [THEN conjunct2, THEN conjunct1] sw by (simp add: u1 u2 u3)
  have c: "low (stats_usage_categories (get_dashboard_stats id db_three 0)) = 1"
    unfolding T [THEN conjunct2, THEN conjunct2, THEN conjunct1] sw by (simp add: u1 u2 u3)
  have d: "stats_total_software (get_dashboard_stats id db_three 0) = 3"
    unfolding T [THEN conjunct2, THEN conjunct2, THEN conjunct2, THEN conjunct2, THEN conjunct2] sw
    by simp
  from a b c d show ?thesis by (intro conjI)
qed

text \<open>
  C3 as stated (potential savings are never negative) fails: a product whose seat count
  is 0 has usage percentage 0 by the guard of \<^verbatim>\<open>usage_percentage\<close>, so it is counted as
  under-used, and with one active licence its seat delta is \<open>0 - 1\<close>.
\<close>

theorem C3_potential_savings_counterexample:
  "stats_potential_savings (get_dashboard_stats id db_zero_seats 0) = Finite (- 10)
   \<and> \<not> fle (Finite 0) (stats_potential_savings (get_dashboard_stats id db_zero_seats 0))"
  by (simp add: get_dashboard_stats_def Let_def db_zero_seats_def mk_software_def
      mk_license_def used_licenses_def usage_percentage_def fsum_def fadd_def fmul_def
      float_of_int_def)

text \<open>
  Nor does it hold of a cost that is not finite: a product without seats and licences
  whose cost is infinite contributes \<open>0 * inf\<close>, which is not-a-number, and not-a-number
  is not at least 0.
\<close>

lemma potential_savings_infinite_cost:
  "stats_potential_savings (get_dashboard_stats id db_infinite_cost 0) = NaN
   \<and> \<not> fle (Finite 0) (stats_potential_savings (get_dashboard_stats id db_infinite_cost 0))"
  by (simp add: get_dashboard_stats_def Let_def db_infinite_cost_def mk_software_def
      used_licenses_def usage_percentage_def fsum_def fadd_def fmul_def
      float_of_int_def)

lemma low_usage_delta_nonneg:
  assumes t: "0 \<le> total_licenses s"
    and z: "total_licenses s = 0 \<longrightarrow> used_licenses db s = 0"
    and u: "usage_percentage db s < 30"
  shows "0 \<le> total_licenses s - used_licenses db s"
proof (cases "total_licenses s = 0")
  case True
  with z show ?thesis by simp
next
  case False
  with t have pos: "0 < total_licenses s" by simp
  then have rpos: "(0::rat) < of_int (total_licenses s)" by simp
  from u False have "of_int (used_licenses db s) / of_int (total_licenses s) * 100 < (30::rat)"
    by (simp add: usage_percentage_def)
  then have "of_int (used_licenses db s) * 100 < (30::rat) * of_int (total_licenses s)"
    using rpos by (simp add: pos_divide_less_eq)
  then have "(of_int (used_licenses db s * 100) :: rat) < of_int (30 * total_licenses s)"
    by simp
  then have "used_licenses db s * 100 < 30 * total_licenses s"
    by (simp only: of_int_less_iff)
  with pos show ?thesis by linarith
qed

lemma low_usage_term_nonneg:
  assumes fl: "\<forall>x. 0 \<le> x \<longrightarrow> 0 \<le> fl x"
    and d: "0 \<le> i" and c: "0 \<le> c"
  shows "\<exists>r. fmul fl (float_of_int fl i) (Finite c) = Finite r \<and> 0 \<le> r"
proof -
  from d have "(0::rat) \<le> of_int i" by simp
  with fl have "0 \<le> fl (of_int i)" by blast
  with c have "0 \<le> fl (of_int i) * c" by simp
  with fl have "0 \<le> fl (fl (of_int i) * c)" by blast
  then show ?thesis by (simp add: fmul_def float_of_int_def)
qed

lemma foldl_fadd_nonneg:
  assumes fl: "\<forall>x. 0 \<le> x \<longrightarrow> 0 \<le> fl x"
  shows "0 \<le> a \<Longrightarrow> \<forall>y \<in> set ys. \<exists>b. y = Finite b \<and> 0 \<le> b
         \<Longrightarrow> \<exists>r. foldl (fadd fl) (Finite a) ys = Finite r \<and> 0 \<le> r"
proof (induction ys arbitrary: a)
  case Nil
  then show ?case by simp
next
  case (Cons y ys)
  from Cons.prems(2) obtain b where y: "y = Finite b" and b: "0 \<le> b" by auto
  from Cons.prems(1) b have "0 \<le> a + b" by simp
  with fl have n: "0 \<le> fl (a + b)" by blast
  from Cons.prems(2) have r: "\<forall>y \<in> set ys. \<exists>b. y = Finite b \<and> 0 \<le> b" by simp
  from Cons.IH [OF n r] show ?case by (simp add: y fadd_def)
qed

text \<open>
  C3, amended. On a collection whose seat counts are not negative, whose costs per seat
  are finite and not negative, and in which a product with 0 seats has no active
  licence, the potential savings are at least 0, whatever the rounding does to the
  digits, as long as it rounds no value that is at least 0 to one below 0. They are the
  float sum, over the products with a usage percentage below 30, of the float product
  of the idle seats and the cost per seat.
\<close>

theorem C3_potential_savings_nonneg:
  assumes "\<forall>x. 0 \<le> x \<longrightarrow> 0 \<le> fl x"
    and "\<forall>s \<in> set (software db).
             0 \<le> total_licenses s \<and> (\<exists>c. cost_per_license s = Finite c \<and> 0 \<le> c)
             \<and> (total_licenses s = 0 \<longrightarrow> used_licenses db s = 0)"
  shows "stats_potential_savings (get_dashboard_stats fl db today)
           = fsum fl (map (\<lambda>s. fmul fl (float_of_int fl (total_licenses s - used_licenses db s))
                                      (cost_per_license s))
                         (filter (\<lambda>s. usage_percentage db s < 30) (software db)))
         \<and> fle (Finite 0) (stats_potential_savings (get_dashboard_stats fl db today))"
proof -
  let ?terms = "map (\<lambda>s. fmul fl (float_of_int fl (total_licenses s - used_licenses db s))
                                   (cost_per_license s))
                    (filter (\<lambda>s. usage_percentage db s < 30) (software db))"
  have "\<forall>y \<in> set ?terms. \<exists>b. y = Finite b \<and> 0 \<le> b"
  proof
    fix y assume "y \<in> set ?terms"
    then obtain s where s: "s \<in> set (software db)" and u: "usage_percentage db s < 30"
      and y: "y = fmul fl (float_of_int fl (total_licenses s - used_licenses db s))
                       (cost_per_license s)"
      by auto
    from assms(2) s obtain c where t: "0 \<le> total_licenses s"
      and c: "cost_per_license s = Finite c" "0 \<le> c"
      and z: "total_licenses s = 0 \<longrightarrow> used_licenses db s = 0"
      by blast
    from low_usage_term_nonneg [OF assms(1) low_usage_delta_nonneg [OF t z u] c(2)]
    show "\<exists>b. y = Finite b \<and> 0 \<le> b"
      by (simp add: y c(1))
  qed
  with foldl_fadd_nonneg [OF assms(1), of 0 ?terms]
  obtain r where "fsum fl ?terms = Finite r" and "0 \<le> r"
    unfolding fsum_def by auto
  then show ?thesis
    by (simp add: get_dashboard_stats_def Let_def)
qed

text \<open>On \<open>db_quarter\<close> three of four seats at 10 each are idle: the savings are 30.\<close>

theorem C3_potential_savings_nonneg_witness:
  "list_all (\<lambda>s. 0 \<le> total_licenses s \<and> (\<exists>c. cost_per_license s = Finite c \<and> 0 \<le> c)
               \<and> (total_licenses s = 0 \<longrightarrow> used_licenses db_quarter s = 0))
     (software db_quarter)
   \<and> stats_potential_savings (get_dashboard_stats id db_quarter 0) = Finite 30
   \<and> fle (Finite 0) (stats_potential_savings (get_dashboard_stats id db_quarter 0))"
proof -
  have e: "\<forall>x. 0 \<le> x \<longrightarrow> 0 \<le> id x"
    by simp
  have h: "\<forall>s \<in> set (software db_quarter).
      0 \<le> total_licenses s \<and> (\<exists>c. cost_per_license s = Finite c \<and> 0 \<le> c)
      \<and> (total_licenses s = 0 \<longrightarrow> used_licenses db_quarter s = 0)"
    by (simp add: db_quarter_def mk_software_def)
  have v: "stats_potential_savings (get_dashboard_stats id db_quarter 0) = Finite 30"
    by (simp add: get_dashboard_stats_def Let_def db_quarter_def mk_software_def
        mk_license_def used_licenses_def usage_percentage_def fsum_def fadd_def fmul_def
        float_of_int_def)
  have l: "list_all (\<lambda>s. 0 \<le> total_licenses s \<and> (\<exists>c. cost_per_license s = Finite c \<and> 0 \<le> c)
               \<and> (total_licenses s = 0 \<longrightarrow> used_licenses db_quarter s = 0))
     (software db_quarter)"
    using h by (simp only: list_all_iff)
  from l v C3_potential_savings_nonneg [OF e h, of 0, THEN conjunct2] show ?thesis
    by (intro conjI)
qed

section \<open>Properties of the rankings and of the inventory view\<close>







lemma set_py_slice: "set (py_slice xs a b) \<subseteq> set xs"
  unfolding py_slice_def Let_def
  by (meson set_take_subset set_drop_subset subset_trans)

lemma py_slice_beyond: "int (length xs) \<le> a \<Longrightarrow> py_slice xs a b = []"
  by (simp add: py_slice_def slice_bound_def Let_def)

lemma min_add_diff: "min (a + c) n - a = min c (n - a)" for a c n :: nat
  by arith

lemma py_slice_nonneg:
  assumes "0 \<le> a" and "0 \<le> c"
  shows "py_slice xs a (a + c) = take (nat c) (drop (nat a) xs)"
proof (cases "length xs \<le> nat a")
  case True
  with assms show ?thesis by (simp add: py_slice_def slice_bound_def Let_def)
next
  case False
  with assms have lo: "slice_bound (length xs) a = nat a"
    by (simp add: slice_bound_def)
  from assms have hi: "slice_bound (length xs) (a + c) = min (nat a + nat c) (length xs)"
    by (simp add: slice_bound_def nat_add_distrib)
  have "min (nat a + nat c) (length xs) - nat a = min (nat c) (length xs - nat a)"
    by (rule min_add_diff)
  then have "min (nat a + nat c) (length xs) - nat a = min (nat c) (length (drop (nat a) xs))"
    by simp
  moreover have "take (min m (length ys)) ys = take m ys" for m and ys :: "'a list"
    by (simp add: min_def)
  ultimately show ?thesis
    by (simp add: py_slice_def Let_def lo hi del: length_drop)
qed

lemma set_expiring_filtered:
  "set (expiring_filtered db today) =
     {s \<in> set (software db). today < renewal_date s \<and> renewal_date s \<le> today + 30}"
  by (auto simp: expiring_filtered_def)

lemma set_expired_filtered:
  "set (expired_filtered db today) = {s \<in> set (software db). renewal_date s \<le> today}"
  by (auto simp: expired_filtered_def sorted_reverse_def)

lemma inventory_expiring_subset:
  "is_Render_list (software_inventory db (Some ''expiring'') pg today)
   \<and> set (software_list (software_inventory db (Some ''expiring'') pg today))
       \<subseteq> set (expiring_filtered db today)"
  using set_py_slice [of "expiring_filtered db today"]
  by (auto simp: software_inventory_def Let_def)

lemma inventory_expired_subset:
  "is_Render_list (software_inventory db (Some ''expired'') pg today)
   \<and> set (software_list (software_inventory db (Some ''expired'') pg today))
       \<subseteq> set (expired_filtered db today)"
  using set_py_slice [of "expired_filtered db today"]
  by (auto simp: software_inventory_def Let_def)

text \<open>
  C4. Whatever the page, every item that mode \<^verbatim>\<open>expiring\<close> returns has
  \<open>today < renewal_date \<le> today + 30\<close>, every item that mode \<^verbatim>\<open>expired\<close> returns has
  \<open>renewal_date \<le> today\<close>, and for one \<open>today\<close> no item is returned by both.
\<close>

theorem C4_expiring_expired:
  "is_Render_list (software_inventory db (Some ''expiring'') pg today)
   \<and> is_Render_list (software_inventory db (Some ''expired'') pg' today)
   \<and> (\<forall>s \<in> set (software_list (software_inventory db (Some ''expiring'') pg today)).
         today < renewal_date s \<and> renewal_date s \<le> today + 30)
   \<and> (\<forall>s \<in> set (software_list (software_inventory db (Some ''expired'') pg' today)).
         renewal_date s \<le> today)
   \<and> set (software_list (software_inventory db (Some ''expiring'') pg today))
       \<inter> set (software_list (software_inventory db (Some ''expired'') pg' today)) = {}"
proof -
  let ?a = "set (software_list (software_inventory db (Some ''expiring'') pg today))"
  let ?b = "set (software_list (software_inventory db (Some ''expired'') pg' today))"
  have a: "?a \<subseteq> {s \<in> set (software db). today < renewal_date s \<and> renewal_date s \<le> today + 30}"
    using inventory_expiring_subset [of db pg today] by (simp add: set_expiring_filtered)
  have b: "?b \<subseteq> {s \<in> set (software db). renewal_date s \<le> today}"
    using inventory_expired_subset [of db pg' today] by (simp add: set_expired_filtered)
  have "?a \<inter> ?b = {}"
  proof (rule ccontr)
    assume "?a \<inter> ?b \<noteq> {}"
    then obtain s where "s \<in> ?a" and "s \<in> ?b" by blast
    with a b have "today < renewal_date s" and "renewal_date s \<le> today" by auto
    then show False by simp
  qed
  with a b inventory_expiring_subset [of db pg today] inventory_expired_subset [of db pg' today]
  show ?thesis by auto
qed

text \<open>On \<open>db_dates\<close> at day 100 each mode returns one product, within its bounds.\<close>

theorem C4_expiring_expired_witness:
  "software_list (software_inventory db_dates (Some ''expiring'') (Some 1) 100)
     = [mk_software 1 ''Editor'' 2 10 110]
   \<and> software_list (software_inventory db_dates (Some ''expired'') (Some 1) 100)
     = [mk_software 2 ''Mail'' 100 5 90]
   \<and> (100::int) < renewal_date (mk_software 1 ''Editor'' 2 10 110)
   \<and> renewal_date (mk_software 1 ''Editor'' 2 10 110) \<le> 100 + 30
   \<and> renewal_date (mk_software 2 ''Mail'' 100 5 90) \<le> 100"
proof -
  have a: "software_list (software_inventory db_dates (Some ''expiring'') (Some 1) 100)
     = [mk_software 1 ''Editor'' 2 10 110]"
    by (simp add: software_inventory_def Let_def db_dates_def mk_software_def
        expiring_filtered_def py_slice_def slice_bound_def)
  have b: "software_list (software_inventory db_dates (Some ''expired'') (Some 1) 100)
     = [mk_software 2 ''Mail'' 100 5 90]"
    by (simp add: software_inventory_def Let_def db_dates_def mk_software_def
        expired_filtered_def sorted_reverse_def py_slice_def slice_bound_def)
  from C4_expiring_expired [of db_dates "Some 1" 100 "Some 1"] a b
  show ?thesis by simp
qed

text \<open>
  C7 as stated (mode \<^verbatim>\<open>all\<close> always yields the three category lists) fails on the
  empty inventory: the guard \<^verbatim>\<open>if not all_software\<close> returns first, with a flashed message
  and a single empty \<^verbatim>\<open>software_list\<close>.
\<close>

theorem C7_all_mode_counterexample:
  "software_inventory db_empty (Some ''all'') (Some 1) 0 =
     Render_list (Some ''No software found in the inventory.'') []
       \<lparr> filter_type = ''all'', page = 1, per_page = 12, total = 0,
         has_next = False, has_prev = False, pages = 1 \<rparr>
   \<and> \<not> is_Render_categories (software_inventory db_empty (Some ''all'') (Some 1) 0)"
  by (simp add: software_inventory_def Let_def db_empty_def)

text \<open>
  C7, amended. On a collection that is not empty, every filter value other than the three
  category names (so \<^verbatim>\<open>all\<close>, and the default) yields three lists computed apart from one
  another: usage above 70 sorted descending by usage, renewal within the next 30 days
  sorted ascending by date, renewal today or earlier sorted descending by date, each cut
  to 8 after its sort; the page parameter is ignored and no list is paginated.
\<close>

theorem C7_all_mode:
  assumes "software db \<noteq> []"
    and "filter_arg \<notin> {Some ''active'', Some ''expiring'', Some ''expired''}"
  shows "software_inventory db filter_arg page_arg today =
     Render_categories
       (take 8 (sorted_reverse (usage_percentage db)
                  (filter (\<lambda>s. usage_percentage db s > 70) (software db))))
       (take 8 (sort_key renewal_date
                  (filter (\<lambda>s. renewal_date s \<le> today + 30 \<and> renewal_date s > today) (software db))))
       (take 8 (sorted_reverse renewal_date
                  (filter (\<lambda>s. renewal_date s \<le> today) (software db))))
       \<lparr> filter_type = (case filter_arg of None \<Rightarrow> ''all'' | Some f \<Rightarrow> f),
         page = 1, per_page = 12, total = int (length (software db)),
         has_next = False, has_prev = False, pages = 1 \<rparr>"
  using assms
  by (cases filter_arg)
     (simp_all add: software_inventory_def Let_def active_filtered_def
        expiring_filtered_def expired_filtered_def)

text \<open>On \<open>db_dates\<close> at day 100, page 3 of mode \<^verbatim>\<open>all\<close> is the same three lists.\<close>

theorem C7_all_mode_witness:
  "software db_dates \<noteq> []
   \<and> Some ''all'' \<notin> {Some ''active'', Some ''expiring'', Some ''expired''}
   \<and> software_inventory db_dates (Some ''all'') (Some 3) 100 =
       Render_categories [] [mk_software 1 ''Editor'' 2 10 110] [mk_software 2 ''Mail'' 100 5 90]
         \<lparr> filter_type = ''all'', page = 1, per_page = 12, total = 2,
           has_next = False, has_prev = False, pages = 1 \<rparr>"
proof -
  have h1: "software db_dates \<noteq> []" by (simp add: db_dates_def)
  have h2: "Some ''all'' \<notin> {Some ''active'', Some ''expiring'', Some ''expired''}" by simp
  from C7_all_mode [OF h1 h2, of "Some 3" 100] h1 h2
  show ?thesis
    by (simp add: db_dates_def mk_software_def sorted_reverse_def usage_percentage_def
        used_licenses_def)
qed

lemma filtered_software_empty: "software db = [] \<Longrightarrow> filtered_software db ft today = []"
  by (simp add: filtered_software_def active_filtered_def expiring_filtered_def
      expired_filtered_def sorted_reverse_def)

lemma inventory_page:
  assumes "ft = ''active'' \<or> ft = ''expiring'' \<or> ft = ''expired''"
  shows "is_Render_list (software_inventory db (Some ft) (Some pg) today)
     \<and> software_list (software_inventory db (Some ft) (Some pg) today)
        = py_slice (filtered_software db ft today) ((pg - 1) * 12) ((pg - 1) * 12 + 12)"
proof (cases "software db = []")
  case True
  then show ?thesis
    by (simp add: software_inventory_def Let_def filtered_software_empty py_slice_def)
next
  case False
  with assms show ?thesis
    by (auto simp: software_inventory_def Let_def filtered_software_def active_filtered_def
        expiring_filtered_def expired_filtered_def py_slice_beyond)
qed

text \<open>
  C8. In each single-category mode and for every page number the returned page is the
  Python slice of the sorted filtered list from \<open>(page - 1) * 12\<close> to that plus 12; from
  page 1 on that is 12 items after skipping \<open>(page - 1) * 12\<close>; and a start at or beyond
  the end of the list gives the empty page. The result is always a rendered list, never
  an error.
\<close>

theorem C8_pagination:
  assumes "ft = ''active'' \<or> ft = ''expiring'' \<or> ft = ''expired''"
  shows "is_Render_list (software_inventory db (Some ft) (Some pg) today)
     \<and> software_list (software_inventory db (Some ft) (Some pg) today)
        = py_slice (filtered_software db ft today) ((pg - 1) * 12) ((pg - 1) * 12 + 12)
     \<and> (1 \<le> pg \<longrightarrow>
          software_list (software_inventory db (Some ft) (Some pg) today)
            = take 12 (drop (nat ((pg - 1) * 12)) (filtered_software db ft today)))
     \<and> (int (length (filtered_software db ft today)) \<le> (pg - 1) * 12 \<longrightarrow>
          software_list (software_inventory db (Some ft) (Some pg) today) = [])"
proof -
  note p = inventory_page [OF assms, of db pg today]
  have "1 \<le> pg \<Longrightarrow> py_slice (filtered_software db ft today) ((pg - 1) * 12) ((pg - 1) * 12 + 12)
      = take 12 (drop (nat ((pg - 1) * 12)) (filtered_software db ft today))"
    using py_slice_nonneg [of "(pg - 1) * 12" 12 "filtered_software db ft today"] by simp
  with p show ?thesis
    by (simp add: py_slice_beyond)
qed

text \<open>
  On \<open>db_dates\<close> at day 100 the mode \<^verbatim>\<open>expired\<close> holds one product: page 1 returns it,
  page 2 and page \<open>-1\<close> are empty.
\<close>

theorem C8_pagination_witness:
  "(''expired'' = ''active'' \<or> ''expired'' = ''expiring'' \<or> ''expired'' = ''expired'')
   \<and> software_list (software_inventory db_dates (Some ''expired'') (Some 1) 100)
       = [mk_software 2 ''Mail'' 100 5 90]
   \<and> software_list (software_inventory db_dates (Some ''expired'') (Some 2) 100) = []
   \<and> software_list (software_inventory db_dates (Some ''expired'') (Some (- 1)) 100) = []"
proof -
  have h: "''expired'' = ''active'' \<or> ''expired'' = ''expiring'' \<or> ''expired'' = ''expired''"
    by simp
  have f: "filtered_software db_dates ''expired'' 100 = [mk_software 2 ''Mail'' 100 5 90]"
    by (simp add: filtered_software_def expired_filtered_def sorted_reverse_def db_dates_def
        mk_software_def)
  have p1: "software_list (software_inventory db_dates (Some ''expired'') (Some 1) 100)
       = [mk_software 2 ''Mail'' 100 5 90]"
    using C8_pagination [OF h, of db_dates 1 100] by (simp add: f py_slice_def slice_bound_def)
  have p2: "software_list (software_inventory db_dates (Some ''expired'') (Some 2) 100) = []"
    using C8_pagination [OF h, of db_dates 2 100] by (simp add: f py_slice_def slice_bound_def)
  have p3: "software_list (software_inventory db_dates (Some ''expired'') (Some (- 1)) 100) = []"
    using C8_pagination [OF h, of db_dates "- 1" 100] by (simp add: f py_slice_def slice_bound_def)
  from h p1 p2 p3 show ?thesis by (intro conjI)
qed

section \<open>Properties of the JSON API\<close>

subsection \<open>Deleting software\<close>

lemma str_nat_digit: "n < 10 \<Longrightarrow> str_nat n = [digit_char n]"
  by (simp add: str_nat.simps)

lemma delete_software_rejects:
  assumes "load_user db sid = Some cu" and "role cu = ''admin''"
    and "find (\<lambda>s. sw_id s = i) (software db) = Some sw"
    and "0 < active_license_count db i"
  shows "delete_software db sid i =
          (Json 400 (Error (''Cannot delete software with '' @ str_nat (active_license_count db i)
                              @ '' active licenses'')), db)"
  using assms by (simp add: delete_software_def Let_def)

lemma delete_software_unchanged:
  "0 < active_license_count db i \<Longrightarrow>
     snd (delete_software db sid i) = db \<and> status_code (fst (delete_software db sid i)) \<noteq> 200"
  by (simp add: delete_software_def Let_def split: option.split)

text \<open>
  C9. When an administrator deletes an existing product that has \<open>n \<ge> 1\<close> active licences,
  the answer is 400 with the message \<^verbatim>\<open>Cannot delete software with n active licenses\<close> and
  the database is left as it was. For every request whatsoever, an answer 200 and any
  change of the software table occur only with zero active licences.
\<close>

theorem C9_delete_software_guard:
  "(load_user db sid = Some cu \<and> role cu = ''admin''
      \<and> find (\<lambda>s. sw_id s = i) (software db) = Some sw \<and> 0 < active_license_count db i
    \<longrightarrow> delete_software db sid i =
          (Json 400 (Error (''Cannot delete software with '' @ str_nat (active_license_count db i)
                              @ '' active licenses'')), db))
   \<and> (status_code (fst (delete_software db sid i)) = 200 \<longrightarrow> active_license_count db i = 0)
   \<and> (software (snd (delete_software db sid i)) \<noteq> software db \<longrightarrow> active_license_count db i = 0)"
proof (intro conjI impI)
  assume "load_user db sid = Some cu \<and> role cu = ''admin''
      \<and> find (\<lambda>s. sw_id s = i) (software db) = Some sw \<and> 0 < active_license_count db i"
  then show "delete_software db sid i =
          (Json 400 (Error (''Cannot delete software with '' @ str_nat (active_license_count db i)
                              @ '' active licenses'')), db)"
    using delete_software_rejects [of db sid cu i sw] by blast
next
  assume "status_code (fst (delete_software db sid i)) = 200"
  with delete_software_unchanged [of db i sid] show "active_license_count db i = 0"
    by (cases "active_license_count db i") simp_all
next
  assume "software (snd (delete_software db sid i)) \<noteq> software db"
  with delete_software_unchanged [of db i sid] show "active_license_count db i = 0"
    by (cases "active_license_count db i") auto
qed

text \<open>
  On \<open>db_office\<close> the product has one active licence and the message reads
  \<^verbatim>\<open>1 active licenses\<close>; on \<open>db_idle\<close> it has none and the deletion succeeds.
\<close>

theorem C9_delete_software_guard_witness:
  "delete_software db_office (Some 1) 1 =
     (Json 400 (Error ''Cannot delete software with 1 active licenses''), db_office)
   \<and> status_code (fst (delete_software db_idle (Some 1) 1)) = 200
   \<and> software (snd (delete_software db_idle (Some 1) 1)) \<noteq> software db_idle
   \<and> active_license_count db_idle 1 = 0"
proof -
  have a: "load_user db_office (Some 1) = Some (mk_user 1 ''admin'' ''admin@samurai.com'' ''admin'')"
    by (simp add: load_user_def db_office_def mk_user_def)
  have b: "role (mk_user 1 ''admin'' ''admin@samurai.com'' ''admin'') = ''admin''"
    by (simp add: mk_user_def)
  have c: "find (\<lambda>s. sw_id s = 1) (software db_office) = Some (mk_software 1 ''Editor'' 4 10 100)"
    by (simp add: db_office_def mk_software_def)
  have d: "active_license_count db_office 1 = 1"
    by (simp add: active_license_count_def db_office_def mk_license_def)
  have e: "status_code (fst (delete_software db_idle (Some 1) 1)) = 200"
    by (simp add: delete_software_def Let_def load_user_def db_idle_def mk_user_def
        mk_software_def active_license_count_def)
  have f: "software (snd (delete_software db_idle (Some 1) 1)) \<noteq> software db_idle"
    by (simp add: delete_software_def Let_def load_user_def db_idle_def mk_user_def
        mk_software_def active_license_count_def)
  have g: "str_nat 1 = ''1''"
    by (simp add: str_nat_digit digit_char_def)
  have d0: "0 < active_license_count db_office 1"
    by (simp only: d)
  have h: "load_user db_office (Some 1) = Some (mk_user 1 ''admin'' ''admin@samurai.com'' ''admin'')
      \<and> role (mk_user 1 ''admin'' ''admin@samurai.com'' ''admin'') = ''admin''
      \<and> find (\<lambda>s. sw_id s = 1) (software db_office) = Some (mk_software 1 ''Editor'' 4 10 100)
      \<and> 0 < active_license_count db_office 1"
    using a b c d0 by (intro conjI)
  have "delete_software db_office (Some 1) 1 =
     (Json 400 (Error (''Cannot delete software with '' @ str_nat (active_license_count db_office 1)
                         @ '' active licenses'')), db_office)"
    by (rule C9_delete_software_guard [THEN conjunct1, THEN mp, OF h])
  then have r: "delete_software db_office (Some 1) 1 =
     (Json 400 (Error ''Cannot delete software with 1 active licenses''), db_office)"
    unfolding d g by simp
  have "active_license_count db_idle 1 = 0"
    by (rule C9_delete_software_guard [THEN conjunct2, THEN conjunct1, THEN mp, OF e])
  with r e f show ?thesis by (intro conjI)
qed

subsection \<open>Creating users\<close>

text \<open>
  C10 (a duplicate address under case-folding is answered with 400) does not hold of
  \<^verbatim>\<open>add_user\<close>: with \<^verbatim>\<open>admin@samurai.com\<close> in the table, the administrator's request for
  \<^verbatim>\<open>Admin@Samurai.com\<close> passes the exact look-up, the constructor folds the address, the
  commit violates the unique column, and the answer is 500 \<^verbatim>\<open>Internal server error\<close>. No
  user is created.
\<close>

theorem C10_add_user_folded_email:
  "add_user gen_hash db_office (Some 1) new_bob = (Json 500 (Error ''Internal server error''), db_office)"
  by (simp add: add_user_def load_user_def db_office_def mk_user_def new_bob_def Let_def
      User_init_def violates_unique_def strip_def is_space_def lower_def lower_char_def)

subsection \<open>The last administrator\<close>

text \<open>
  C2 as stated (the sole administrator's deletion is answered with 400 whoever asks)
  fails for a requester who is not an administrator: the role check comes first and
  answers 403.
\<close>

theorem C2_last_admin_counterexample:
  "status_code (fst (delete_user db_office (Some 2) 1)) = 403
   \<and> find (\<lambda>u. uid u = 1) (users db_office) = Some (mk_user 1 ''admin'' ''admin@samurai.com'' ''admin'')
   \<and> role (mk_user 1 ''admin'' ''admin@samurai.com'' ''admin'') = ''admin''
   \<and> admin_count db_office = 1"
  by (simp add: delete_user_def load_user_def db_office_def mk_user_def admin_count_def)

lemma load_user_mem: "load_user db sid = Some cu \<Longrightarrow> cu \<in> set (users db)"
  by (auto simp: load_user_def find_Some_iff split: option.splits)

lemma upd_username_Inr: "upd_username db i data u = Inr u1 \<Longrightarrow> role u1 = role u"
  by (auto simp: upd_username_def split: option.splits if_splits)

lemma upd_username_Inl: "upd_username db i data u = Inl r \<Longrightarrow> status_code r = 400"
  by (auto simp: upd_username_def split: option.splits if_splits)

lemma upd_email_Inr: "upd_email db i data u = Inr u1 \<Longrightarrow> role u1 = role u"
  by (auto simp: upd_email_def split: option.splits if_splits)

lemma upd_email_Inl: "upd_email db i data u = Inl r \<Longrightarrow> status_code r = 400"
  by (auto simp: upd_email_def split: option.splits if_splits)

lemma upd_password_role: "role (upd_password h data u) = role u"
  by (simp add: upd_password_def split: option.splits)

lemma upd_role_Inl: "upd_role db cu i data u = Inl r \<Longrightarrow> status_code r = 400"
  by (auto simp: upd_role_def split: option.splits if_splits)

lemma upd_role_Inr:
  "upd_role db cu i data u = Inr u4 \<Longrightarrow> (d_role data = None \<and> role u4 = role u) \<or> uid cu \<noteq> i"
  by (auto simp: upd_role_def split: option.splits if_splits)

lemma upd_role_last_admin:
  "role u = ''admin'' \<Longrightarrow> admin_count db \<le> 1 \<Longrightarrow> d_role data = Some r \<Longrightarrow> r \<noteq> ''admin''
   \<Longrightarrow> \<exists>m. upd_role db cu i data u = Inl (Json 400 (Error m))"
  by (simp add: upd_role_def)

text \<open>Every outcome of the update: a refusal that leaves the table as it was, or the commit.\<close>

lemma update_user_outcome:
  "(snd (update_user h db sid i data) = db \<and> status_code (fst (update_user h db sid i data)) \<noteq> 200)
   \<or> (\<exists>cu user u4.
         load_user db sid = Some cu \<and> role cu = ''admin''
         \<and> find (\<lambda>u. uid u = i) (users db) = Some user
         \<and> (role u4 = role user \<or> uid cu \<noteq> i)
         \<and> snd (update_user h db sid i data)
             = db \<lparr> users := map (\<lambda>x. if uid x = i then u4 else x) (users db) \<rparr>
         \<and> status_code (fst (update_user h db sid i data)) = 200)"
proof (cases "load_user db sid")
  case None
  then show ?thesis by (simp add: update_user_def)
next
  case (Some cu)
  show ?thesis
  proof (cases "role cu = ''admin''")
    case False
    with Some show ?thesis by (simp add: update_user_def)
  next
    case True
    show ?thesis
    proof (cases "find (\<lambda>u. uid u = i) (users db)")
      case None
      with Some True show ?thesis by (simp add: update_user_def)
    next
      case user: (Some user)
      show ?thesis
      proof (cases "upd_username db i data user")
        case (Inl r)
        with Some True user upd_username_Inl [OF Inl] show ?thesis
          by (simp add: update_user_def)
      next
        case u1: (Inr u1)
        show ?thesis
        proof (cases "upd_email db i data u1")
          case (Inl r)
          with Some True user u1 upd_email_Inl [OF Inl] show ?thesis
            by (simp add: update_user_def)
        next
          case u2: (Inr u2)
          show ?thesis
          proof (cases "upd_role db cu i data (upd_password h data u2)")
            case (Inl r)
            with Some True user u1 u2 upd_role_Inl [OF Inl] show ?thesis
              by (simp add: update_user_def)
          next
            case u4: (Inr u4)
            have r: "role u4 = role user \<or> uid cu \<noteq> i"
              using upd_role_Inr [OF u4] upd_username_Inr [OF u1] upd_email_Inr [OF u2]
              by (auto simp: upd_password_role)
            show ?thesis
            proof (cases "violates_unique (filter (\<lambda>x. uid x \<noteq> i) (users db)) u4")
              case True
              with Some \<open>role cu = ''admin''\<close> user u1 u2 u4 show ?thesis
                by (simp add: update_user_def)
            next
              case False
              with Some \<open>role cu = ''admin''\<close> user u1 u2 u4
              have "snd (update_user h db sid i data)
                      = db \<lparr> users := map (\<lambda>x. if uid x = i then u4 else x) (users db) \<rparr>
                    \<and> status_code (fst (update_user h db sid i data)) = 200"
                by (simp add: update_user_def)
              with Some \<open>role cu = ''admin''\<close> user r show ?thesis
                by blast
            qed
          qed
        qed
      qed
    qed
  qed
qed

lemma load_user_find:
  "load_user db sid = Some cu \<Longrightarrow> find (\<lambda>u. uid u = uid cu) (users db) = Some cu"
  by (cases sid) (auto simp: load_user_def find_Some_iff)

lemma update_user_keeps_admin:
  "\<exists>u \<in> set (users db). role u = ''admin'' \<Longrightarrow>
   \<exists>u \<in> set (users (snd (update_user h db sid i data))). role u = ''admin''"
proof -
  assume a: "\<exists>u \<in> set (users db). role u = ''admin''"
  from update_user_outcome [of h db sid i data] show ?thesis
  proof
    assume "snd (update_user h db sid i data) = db
      \<and> status_code (fst (update_user h db sid i data)) \<noteq> 200"
    with a show ?thesis by simp
  next
    assume "\<exists>cu user u4.
         load_user db sid = Some cu \<and> role cu = ''admin''
         \<and> find (\<lambda>u. uid u = i) (users db) = Some user
         \<and> (role u4 = role user \<or> uid cu \<noteq> i)
         \<and> snd (update_user h db sid i data)
             = db \<lparr> users := map (\<lambda>x. if uid x = i then u4 else x) (users db) \<rparr>
         \<and> status_code (fst (update_user h db sid i data)) = 200"
    then obtain cu user u4 where cu: "load_user db sid = Some cu" and adm: "role cu = ''admin''"
      and user: "find (\<lambda>u. uid u = i) (users db) = Some user"
      and r: "role u4 = role user \<or> uid cu \<noteq> i"
      and db': "snd (update_user h db sid i data)
             = db \<lparr> users := map (\<lambda>x. if uid x = i then u4 else x) (users db) \<rparr>"
      by blast
    have mem: "cu \<in> set (users db)" using cu by (rule load_user_mem)
    let ?f = "\<lambda>x. if uid x = i then u4 else x"
    have "role (?f cu) = ''admin''"
    proof (cases "uid cu = i")
      case True
      with load_user_find [OF cu] user have "user = cu" by simp
      with r True adm show ?thesis by simp
    next
      case False
      with adm show ?thesis by simp
    qed
    moreover have "?f cu \<in> set (users (snd (update_user h db sid i data)))"
      using mem by (simp add: db')
    ultimately show ?thesis by blast
  qed
qed

lemma delete_user_outcome:
  "(snd (delete_user db sid j) = db \<and> status_code (fst (delete_user db sid j)) \<noteq> 200)
   \<or> (\<exists>cu. load_user db sid = Some cu \<and> role cu = ''admin'' \<and> uid cu \<noteq> j
         \<and> snd (delete_user db sid j) = db \<lparr> users := filter (\<lambda>x. uid x \<noteq> j) (users db) \<rparr>
         \<and> status_code (fst (delete_user db sid j)) = 200)"
  by (simp add: delete_user_def split: option.splits)

lemma delete_user_keeps_admin:
  "\<exists>u \<in> set (users db). role u = ''admin'' \<Longrightarrow>
   \<exists>u \<in> set (users (snd (delete_user db sid j))). role u = ''admin''"
proof -
  assume a: "\<exists>u \<in> set (users db). role u = ''admin''"
  from delete_user_outcome [of db sid j] show ?thesis
  proof
    assume "snd (delete_user db sid j) = db \<and> status_code (fst (delete_user db sid j)) \<noteq> 200"
    with a show ?thesis by simp
  next
    assume "\<exists>cu. load_user db sid = Some cu \<and> role cu = ''admin'' \<and> uid cu \<noteq> j
         \<and> snd (delete_user db sid j) = db \<lparr> users := filter (\<lambda>x. uid x \<noteq> j) (users db) \<rparr>
         \<and> status_code (fst (delete_user db sid j)) = 200"
    then obtain cu where cu: "load_user db sid = Some cu" and adm: "role cu = ''admin''"
      and ne: "uid cu \<noteq> j"
      and db': "snd (delete_user db sid j) = db \<lparr> users := filter (\<lambda>x. uid x \<noteq> j) (users db) \<rparr>"
      by blast
    from load_user_mem [OF cu] ne have "cu \<in> set (users (snd (delete_user db sid j)))"
      by (simp add: db')
    with adm show ?thesis by blast
  qed
qed

lemma update_user_last_admin:
  assumes cu: "load_user db sid = Some cu"
    and t: "find (\<lambda>u. uid u = i) (users db) = Some t" and adm: "role t = ''admin''"
    and one: "admin_count db \<le> 1" and r: "d_role data = Some r" and rn: "r \<noteq> ''admin''"
  shows "status_code (fst (update_user h db sid i data)) = (if role cu = ''admin'' then 400 else 403)
         \<and> snd (update_user h db sid i data) = db"
proof (cases "role cu = ''admin''")
  case False
  with cu show ?thesis by (simp add: update_user_def)
next
  case True
  show ?thesis
  proof (cases "upd_username db i data t")
    case (Inl x)
    with cu True t upd_username_Inl [OF Inl] show ?thesis by (simp add: update_user_def)
  next
    case u1: (Inr u1)
    show ?thesis
    proof (cases "upd_email db i data u1")
      case (Inl x)
      with cu True t u1 upd_email_Inl [OF Inl] show ?thesis by (simp add: update_user_def)
    next
      case u2: (Inr u2)
      have "role (upd_password h data u2) = ''admin''"
        using upd_username_Inr [OF u1] upd_email_Inr [OF u2] adm by (simp add: upd_password_role)
      from upd_role_last_admin [OF this one r rn]
      obtain m where "upd_role db cu i data (upd_password h data u2) = Inl (Json 400 (Error m))"
        by blast
      with cu True t u1 u2 show ?thesis by (simp add: update_user_def)
    qed
  qed
qed

lemma delete_user_last_admin:
  assumes cu: "load_user db sid = Some cu"
    and t: "find (\<lambda>u. uid u = j) (users db) = Some t" and adm: "role t = ''admin''"
    and one: "admin_count db \<le> 1"
  shows "status_code (fst (delete_user db sid j)) = (if role cu = ''admin'' then 400 else 403)
         \<and> snd (delete_user db sid j) = db"
  using assms by (simp add: delete_user_def)

text \<open>
  C2, amended. If the table holds an administrator, it holds one after every
  \<^verbatim>\<open>update_user\<close> and every \<^verbatim>\<open>delete_user\<close>, whatever the request and whoever sends it, and
  every answer other than 200 leaves the database as it was. For a logged-in requester,
  demoting or deleting an administrator while at most one exists is answered with 400
  when the requester is an administrator and with 403 otherwise, the database unchanged.
  A request without a logged-in user is answered with the redirect to the login page,
  the database unchanged.
\<close>

theorem C2_admin_invariant:
  assumes "\<exists>u \<in> set (users db). role u = ''admin''"
  shows "(\<exists>u \<in> set (users (snd (update_user h db sid i data))). role u = ''admin'')
     \<and> (\<exists>u \<in> set (users (snd (delete_user db sid j))). role u = ''admin'')
     \<and> (status_code (fst (update_user h db sid i data)) \<noteq> 200
          \<longrightarrow> snd (update_user h db sid i data) = db)
     \<and> (status_code (fst (delete_user db sid j)) \<noteq> 200 \<longrightarrow> snd (delete_user db sid j) = db)
     \<and> (load_user db sid = Some cu \<and> find (\<lambda>u. uid u = i) (users db) = Some t
          \<and> role t = ''admin'' \<and> admin_count db \<le> 1 \<and> d_role data = Some r \<and> r \<noteq> ''admin''
          \<longrightarrow> status_code (fst (update_user h db sid i data))
                = (if role cu = ''admin'' then 400 else 403)
              \<and> snd (update_user h db sid i data) = db)
     \<and> (load_user db sid = Some cu \<and> find (\<lambda>u. uid u = j) (users db) = Some t'
          \<and> role t' = ''admin'' \<and> admin_count db \<le> 1
          \<longrightarrow> status_code (fst (delete_user db sid j)) = (if role cu = ''admin'' then 400 else 403)
              \<and> snd (delete_user db sid j) = db)
     \<and> (load_user db sid = None
          \<longrightarrow> update_user h db sid i data = (Redirect_login, db)
              \<and> delete_user db sid j = (Redirect_login, db))"
proof (intro conjI impI)
  show "\<exists>u \<in> set (users (snd (update_user h db sid i data))). role u = ''admin''"
    using assms by (rule update_user_keeps_admin)
  show "\<exists>u \<in> set (users (snd (delete_user db sid j))). role u = ''admin''"
    using assms by (rule delete_user_keeps_admin)
  show "snd (update_user h db sid i data) = db"
    if "status_code (fst (update_user h db sid i data)) \<noteq> 200"
    using update_user_outcome [of h db sid i data] that by blast
  show "snd (delete_user db sid j) = db"
    if "status_code (fst (delete_user db sid j)) \<noteq> 200"
    using delete_user_outcome [of db sid j] that by blast
next
  assume p: "load_user db sid = Some cu \<and> find (\<lambda>u. uid u = i) (users db) = Some t
          \<and> role t = ''admin'' \<and> admin_count db \<le> 1 \<and> d_role data = Some r \<and> r \<noteq> ''admin''"
  then have q: "status_code (fst (update_user h db sid i data))
                = (if role cu = ''admin'' then 400 else 403)
              \<and> snd (update_user h db sid i data) = db"
    using update_user_last_admin [of db sid cu i t data r h] by blast
  from q show "status_code (fst (update_user h db sid i data))
                = (if role cu = ''admin'' then 400 else 403)" by (rule conjunct1)
  from q show "snd (update_user h db sid i data) = db" by (rule conjunct2)
next
  assume p: "load_user db sid = Some cu \<and> find (\<lambda>u. uid u = j) (users db) = Some t'
          \<and> role t' = ''admin'' \<and> admin_count db \<le> 1"
  then have q: "status_code (fst (delete_user db sid j)) = (if role cu = ''admin'' then 400 else 403)
              \<and> snd (delete_user db sid j) = db"
    using delete_user_last_admin [of db sid cu j t'] by blast
  from q show "status_code (fst (delete_user db sid j)) = (if role cu = ''admin'' then 400 else 403)"
    by (rule conjunct1)
  from q show "snd (delete_user db sid j) = db" by (rule conjunct2)
next
  assume n: "load_user db sid = None"
  then show "update_user h db sid i data = (Redirect_login, db)"
    by (simp add: update_user_def)
  from n show "delete_user db sid j = (Redirect_login, db)"
    by (simp add: delete_user_def)
qed

text \<open>
  On \<open>db_office\<close> the sole administrator can neither demote nor delete their own account; deleting
  the other user succeeds and the administrator remains; without a login both requests
  are redirected.
\<close>

theorem C2_admin_invariant_witness:
  "(\<exists>u \<in> set (users db_office). role u = ''admin'')
   \<and> status_code (fst (update_user id db_office (Some 1) 1 demote)) = 400
   \<and> snd (update_user id db_office (Some 1) 1 demote) = db_office
   \<and> status_code (fst (delete_user db_office (Some 1) 1)) = 400
   \<and> snd (delete_user db_office (Some 1) 1) = db_office
   \<and> status_code (fst (delete_user db_office (Some 1) 2)) = 200
   \<and> (\<exists>u \<in> set (users (snd (delete_user db_office (Some 1) 2))). role u = ''admin'')
   \<and> update_user id db_office None 1 demote = (Redirect_login, db_office)
   \<and> delete_user db_office None 1 = (Redirect_login, db_office)"
proof -
  let ?admin = "mk_user 1 ''admin'' ''admin@samurai.com'' ''admin''"
  have ex: "\<exists>u \<in> set (users db_office). role u = ''admin''"
    by (simp add: db_office_def mk_user_def)
  have a: "load_user db_office (Some 1) = Some ?admin"
    by (simp add: load_user_def db_office_def mk_user_def)
  have t: "find (\<lambda>u. uid u = 1) (users db_office) = Some ?admin"
    by (simp add: db_office_def mk_user_def)
  have b: "role ?admin = ''admin''"
    by (simp add: mk_user_def)
  have one: "admin_count db_office \<le> 1"
    by (simp add: admin_count_def db_office_def mk_user_def)
  have r: "d_role demote = Some ''user''"
    by (simp add: demote_def no_data_def)
  have rn: "''user'' \<noteq> ''admin''"
    by simp
  note T = C2_admin_invariant [OF ex, of id "Some 1" 1 demote 1 ?admin ?admin "''user''" ?admin]
  have h5: "load_user db_office (Some 1) = Some ?admin
      \<and> find (\<lambda>u. uid u = 1) (users db_office) = Some ?admin
      \<and> role ?admin = ''admin'' \<and> admin_count db_office \<le> 1
      \<and> d_role demote = Some ''user'' \<and> ''user'' \<noteq> ''admin''"
    using a t b one r rn by (intro conjI)
  have h6: "load_user db_office (Some 1) = Some ?admin
      \<and> find (\<lambda>u. uid u = 1) (users db_office) = Some ?admin
      \<and> role ?admin = ''admin'' \<and> admin_count db_office \<le> 1"
    using a t b one by (intro conjI)
  have c5: "status_code (fst (update_user id db_office (Some 1) 1 demote))
              = (if role ?admin = ''admin'' then 400 else 403)
            \<and> snd (update_user id db_office (Some 1) 1 demote) = db_office"
    by (rule T [THEN conjunct2, THEN conjunct2, THEN conjunct2, THEN conjunct2,
          THEN conjunct1, THEN mp, OF h5])
  have c6: "status_code (fst (delete_user db_office (Some 1) 1))
              = (if role ?admin = ''admin'' then 400 else 403)
            \<and> snd (delete_user db_office (Some 1) 1) = db_office"
    by (rule T [THEN conjunct2, THEN conjunct2, THEN conjunct2, THEN conjunct2,
          THEN conjunct2, THEN conjunct1, THEN mp, OF h6])
  have s: "status_code (fst (delete_user db_office (Some 1) 2)) = 200"
    by (simp add: delete_user_def load_user_def db_office_def mk_user_def admin_count_def)
  have k: "\<exists>u \<in> set (users (snd (delete_user db_office (Some 1) 2))). role u = ''admin''"
    by (rule C2_admin_invariant [OF ex, of id "Some 1" 1 demote 2 ?admin ?admin "''user''" ?admin,
          THEN conjunct2, THEN conjunct1])
  from c5 b have u1: "status_code (fst (update_user id db_office (Some 1) 1 demote)) = 400"
    by simp
  from c6 b have d1: "status_code (fst (delete_user db_office (Some 1) 1)) = 400"
    by simp
  have n: "load_user db_office None = None"
    by (simp add: load_user_def)
  have c7: "update_user id db_office None 1 demote = (Redirect_login, db_office)
            \<and> delete_user db_office None 1 = (Redirect_login, db_office)"
    by (rule C2_admin_invariant [OF ex, of id None 1 demote 1 ?admin ?admin "''user''" ?admin,
          THEN conjunct2, THEN conjunct2, THEN conjunct2, THEN conjunct2,
          THEN conjunct2, THEN conjunct2, THEN mp, OF n])
  from ex u1 c5 [THEN conjunct2] d1 c6 [THEN conjunct2] s k c7 [THEN conjunct1] c7 [THEN conjunct2]
  show ?thesis
    by (intro conjI)
qed

end
